theory Spec2Isabelle
  imports Complex_Main "HOL-Library.Monad_Syntax"
begin

section \<open>JavaScript values and the host operations the validators rely on\<close>

text \<open>
  Both validators take a value of type \<open>any\<close>: the result of parsing an uploaded
  GeoJSON file. A value is a tree; \<open>JUndefined\<close> is what reading a missing property
  yields. A number is modelled by the exact rational its shortest decimal rendering
  denotes; arithmetic on numbers is exact (floating-point rounding, overflow and the
  infinities are outside the model). Strings are lists of code units.

  A call that throws is the value \<open>None\<close>: the only exception these functions can raise
  is a \<open>TypeError\<close> of the host (reading a property of \<open>null\<close>/\<open>undefined\<close>, calling
  something that is not a function, using \<open>in\<close> on a primitive, converting an object that
  has no usable \<open>toString\<close>). \<open>Some r\<close> is a normal return of \<open>r\<close>.
\<close>

datatype jsvalue =
    JUndefined
  | JNull
  | JBool bool
  | JNum rat
  | JStr string
  | JArr "jsvalue list"
  | JObj "(string \<times> jsvalue) list"

text \<open>The result of an arithmetic expression: a number, or \<open>NaN\<close>.\<close>

datatype 'a number = NaN | Fin 'a

fun nsub :: "'a::linordered_field number \<Rightarrow> 'a number \<Rightarrow> 'a number" where
  "nsub (Fin a) (Fin b) = Fin (a - b)"
| "nsub _ _ = NaN"

fun nadd :: "'a::linordered_field number \<Rightarrow> 'a number \<Rightarrow> 'a number" where
  "nadd (Fin a) (Fin b) = Fin (a + b)"
| "nadd _ _ = NaN"

fun nmul :: "'a::linordered_field number \<Rightarrow> 'a number \<Rightarrow> 'a number" where
  "nmul (Fin a) (Fin b) = Fin (a * b)"
| "nmul _ _ = NaN"

text \<open>Comparisons with \<open>NaN\<close> are false.\<close>

fun ngt :: "'a::linordered_field number \<Rightarrow> 'a number \<Rightarrow> bool" where
  "ngt (Fin a) (Fin b) = (b < a)"
| "ngt _ _ = False"

fun nlt :: "'a::linordered_field number \<Rightarrow> 'a number \<Rightarrow> bool" where
  "nlt (Fin a) (Fin b) = (a < b)"
| "nlt _ _ = False"

datatype jstype = TyUndefined | TyObject | TyBoolean | TyNumber | TyString

fun typeof :: "jsvalue \<Rightarrow> jstype" where
  "typeof JUndefined = TyUndefined"
| "typeof JNull = TyObject"
| "typeof (JBool b) = TyBoolean"
| "typeof (JNum r) = TyNumber"
| "typeof (JStr s) = TyString"
| "typeof (JArr xs) = TyObject"
| "typeof (JObj kvs) = TyObject"

text \<open>Truthiness, as \<open>!v\<close>, \<open>v || w\<close> and \<open>if (v)\<close> read it.\<close>

fun truthy :: "jsvalue \<Rightarrow> bool" where
  "truthy JUndefined = False"
| "truthy JNull = False"
| "truthy (JBool b) = b"
| "truthy (JNum r) = (r \<noteq> 0)"
| "truthy (JStr s) = (s \<noteq> [])"
| "truthy (JArr xs) = True"
| "truthy (JObj kvs) = True"

text \<open>\<open>!v\<close>\<close>

definition falsy :: "jsvalue \<Rightarrow> bool" where
  "falsy v = (\<not> truthy v)"


subsection \<open>Rendering numbers\<close>

text \<open>Decimal digits of a natural number (array indices in messages, digit strings).\<close>

fun showNat :: "nat \<Rightarrow> string" where
  "showNat n =
     (if n < 10 then [''0123456789'' ! n]
      else showNat (n div 10) @ [''0123456789'' ! (n mod 10)])"

declare showNat.simps [simp del]

text \<open>
  The number of fractional digits of a decimal, searched up to a bound (every number a
  parser yields is a finite decimal well within it).
\<close>

fun fracDigits :: "nat \<Rightarrow> rat \<Rightarrow> nat" where
  "fracDigits 0 r = 0"
| "fracDigits (Suc fuel) r =
     (if r = of_int \<lfloor>r\<rfloor> then 0 else Suc (fracDigits fuel (r * 10)))"

text \<open>
  \<open>Number.prototype.toString()\<close> of a positive number, after ECMAScript's
  \<open>Number::toString\<close>: with \<open>s\<close> the significant digits, \<open>k\<close> their count and \<open>n\<close> the
  position of the decimal point, positional notation is used when \<open>-6 < n \<le> 21\<close> and
  exponent notation otherwise.
\<close>

definition positiveToString :: "rat \<Rightarrow> string" where
  "positiveToString x =
     (let f = fracDigits 400 x;
          ds = showNat (nat \<lfloor>x * 10 ^ f\<rfloor>);
          s = rev (dropWhile (\<lambda>c. c = CHR ''0'') (rev ds));
          k = int (length s);
          n = int (length ds) - int f
      in if - 6 < n \<and> n \<le> 21 then
           (if k \<le> n then s @ replicate (nat (n - k)) (CHR ''0'')
            else if 0 < n then take (nat n) s @ ''.'' @ drop (nat n) s
            else ''0.'' @ replicate (nat (- n)) (CHR ''0'') @ s)
         else
           (let e = n - 1;
                es = (if e < 0 then ''-'' else ''+'') @ showNat (nat \<bar>e\<bar>)
            in if k = 1 then s @ ''e'' @ es
               else take 1 s @ ''.'' @ drop 1 s @ ''e'' @ es))"

definition numberToString :: "rat \<Rightarrow> string" where
  "numberToString r =
     (if r = 0 then ''0''
      else if r < 0 then ''-'' @ positiveToString (- r)
      else positiveToString r)"

text \<open>
  \<open>x.toFixed(1)\<close>: the nearest multiple of one tenth (the larger one at a tie), with one
  digit after the point. The program applies it to angles only (between 0 and 180).
\<close>

definition toFixed1 :: "real \<Rightarrow> string" where
  "toFixed1 x =
     (let ds = showNat (nat \<lfloor>\<bar>x\<bar> * 10 + 1 / 2\<rfloor>);
          m = (if length ds < 2 then ''0'' @ ds else ds)
      in (if x < 0 then ''-'' else []) @ butlast m @ ''.'' @ [last m])"

subsection \<open>Conversions\<close>

fun joinWith :: "string \<Rightarrow> string list \<Rightarrow> string" where
  "joinWith sep [] = []"
| "joinWith sep [x] = x"
| "joinWith sep (x # y # ys) = x @ sep @ joinWith sep (y # ys)"

text \<open>
  \<open>ToString\<close>, as a template literal \<open>${v}\<close> and \<open>Array.prototype.join\<close> apply it. An
  array is joined with commas, \<open>null\<close> and \<open>undefined\<close> elements rendering empty. A parsed
  object has no callable property of its own: with an own \<open>toString\<close> key the conversion
  finds no usable method and throws; without one the inherited method answers
  \<open>[object Object]\<close>.
\<close>

fun toStr :: "jsvalue \<Rightarrow> string option" where
  "toStr JUndefined = Some ''undefined''"
| "toStr JNull = Some ''null''"
| "toStr (JBool b) = Some (if b then ''true'' else ''false'')"
| "toStr (JNum r) = Some (numberToString r)"
| "toStr (JStr s) = Some s"
| "toStr (JArr xs) =
     map_option (joinWith '','')
       (those (map (\<lambda>x. if x = JUndefined \<or> x = JNull then Some [] else toStr x) xs))"
| "toStr (JObj kvs) =
     (if ''toString'' \<in> set (map fst kvs) then None else Some ''[object Object]'')"

text \<open>The method call \<open>v.toString()\<close>: as \<open>ToString\<close>, but \<open>null\<close> and \<open>undefined\<close> have no methods.\<close>

fun toStringMethod :: "jsvalue \<Rightarrow> string option" where
  "toStringMethod JUndefined = None"
| "toStringMethod JNull = None"
| "toStringMethod v = toStr v"

text \<open>
  The host's \<open>StringToNumber\<close> (the numeric value of a string's text, \<open>NaN\<close> when it is not
  a numeric literal). It belongs to the host, not to this program, and is left
  unspecified: nothing below depends on what it answers.
\<close>

definition stringToNumber :: "string \<Rightarrow> rat number" where
  "stringToNumber = undefined"

text \<open>\<open>ToNumber\<close>, as the arithmetic operators apply it to their operands.\<close>

fun toNumber :: "jsvalue \<Rightarrow> rat number option" where
  "toNumber JUndefined = Some NaN"
| "toNumber JNull = Some (Fin 0)"
| "toNumber (JBool b) = Some (Fin (if b then 1 else 0))"
| "toNumber (JNum r) = Some (Fin r)"
| "toNumber (JStr s) = Some (stringToNumber s)"
| "toNumber (JArr xs) = map_option stringToNumber (toStr (JArr xs))"
| "toNumber (JObj kvs) = map_option (\<lambda>s. NaN) (toStr (JObj kvs))"

subsection \<open>Property access\<close>

text \<open>
  \<open>v.k\<close> for the property names this program reads (\<open>type\<close>, \<open>features\<close>, \<open>properties\<close>,
  \<open>geometry\<close>, \<open>coordinates\<close>, \<open>area\<close>, \<open>plot_ID\<close>, \<open>farmer_name\<close>, \<open>length\<close>), none
  of which is an array index or an inherited member. Reading a property of \<open>null\<close> or
  \<open>undefined\<close> throws; of an object, the first binding of the key.
\<close>

fun getProp :: "jsvalue \<Rightarrow> string \<Rightarrow> jsvalue option" where
  "getProp JUndefined k = None"
| "getProp JNull k = None"
| "getProp (JObj kvs) k = Some (case map_of kvs k of None \<Rightarrow> JUndefined | Some v \<Rightarrow> v)"
| "getProp (JArr xs) k = Some (if k = ''length'' then JNum (of_nat (length xs)) else JUndefined)"
| "getProp (JStr s) k = Some (if k = ''length'' then JNum (of_nat (length s)) else JUndefined)"
| "getProp (JBool b) k = Some JUndefined"
| "getProp (JNum r) k = Some JUndefined"

text \<open>\<open>v[i]\<close> for an index \<open>i\<close>.\<close>

fun getIndex :: "jsvalue \<Rightarrow> nat \<Rightarrow> jsvalue option" where
  "getIndex JUndefined i = None"
| "getIndex JNull i = None"
| "getIndex (JArr xs) i = Some (if i < length xs then xs ! i else JUndefined)"
| "getIndex (JStr s) i = Some (if i < length s then JStr [s ! i] else JUndefined)"
| "getIndex (JObj kvs) i =
     Some (case map_of kvs (showNat i) of None \<Rightarrow> JUndefined | Some v \<Rightarrow> v)"
| "getIndex (JBool b) i = Some JUndefined"
| "getIndex (JNum r) i = Some JUndefined"

text \<open>
  \<open>v[n]\<close> for a computed number \<open>n\<close>: the property key is the number's rendering. An
  array or a string has an element there only when \<open>n\<close> is a natural number.
\<close>

definition propertyKey :: "rat number \<Rightarrow> string" where
  "propertyKey n = (case n of NaN \<Rightarrow> ''NaN'' | Fin r \<Rightarrow> numberToString r)"

fun getComputed :: "jsvalue \<Rightarrow> rat number \<Rightarrow> jsvalue option" where
  "getComputed JUndefined n = None"
| "getComputed JNull n = None"
| "getComputed (JObj kvs) n =
     Some (case map_of kvs (propertyKey n) of None \<Rightarrow> JUndefined | Some v \<Rightarrow> v)"
| "getComputed (JBool b) n = Some JUndefined"
| "getComputed (JNum r) n = Some JUndefined"
| "getComputed v n =
     (case n of
        NaN \<Rightarrow> Some JUndefined
      | Fin r \<Rightarrow> if 0 \<le> r \<and> r = of_int \<lfloor>r\<rfloor> then getIndex v (nat \<lfloor>r\<rfloor>) else Some JUndefined)"

text \<open>
  \<open>k in v\<close>, for the names this program tests (none inherited): a key of the object, an
  index or \<open>length\<close> of the array; on a primitive the operator throws.
\<close>

fun hasProperty :: "string \<Rightarrow> jsvalue \<Rightarrow> bool option" where
  "hasProperty k (JObj kvs) = Some (k \<in> set (map fst kvs))"
| "hasProperty k (JArr xs) = Some (k = ''length'' \<or> k \<in> set (map showNat [0..<length xs]))"
| "hasProperty k _ = None"

text \<open>
  \<open>a === b\<close> for two values read from different places of the parsed tree: primitives
  compare by value, arrays and objects are distinct references.
\<close>

fun strictEquals :: "jsvalue \<Rightarrow> jsvalue \<Rightarrow> bool" where
  "strictEquals JUndefined JUndefined = True"
| "strictEquals JNull JNull = True"
| "strictEquals (JBool a) (JBool b) = (a = b)"
| "strictEquals (JNum a) (JNum b) = (a = b)"
| "strictEquals (JStr a) (JStr b) = (a = b)"
| "strictEquals _ _ = False"

subsection \<open>Loops\<close>

text \<open>\<open>forEach\<close> and \<open>for\<close> over a list of items, threading the state; a throw ends it.\<close>

fun forEachM :: "('a \<Rightarrow> 's \<Rightarrow> 's option) \<Rightarrow> 'a list \<Rightarrow> 's \<Rightarrow> 's option" where
  "forEachM f [] s = Some s"
| "forEachM f (x # xs) s = do { s' \<leftarrow> f x s; forEachM f xs s' }"

text \<open>A scan that stops at the first hit (\<open>break\<close> or \<open>return\<close> inside a \<open>for\<close>).\<close>

fun anyM :: "('a \<Rightarrow> bool option) \<Rightarrow> 'a list \<Rightarrow> bool option" where
  "anyM p [] = Some False"
| "anyM p (x # xs) = do { b \<leftarrow> p x; if b then Some True else anyM p xs }"


section \<open>The diagnostics recorder\<close>

record ValidationResult =
  isValid :: bool
  errors :: "string list"

record ValidationStep =
  rule :: string
  passed :: bool
  message :: string

record ValidationResultWithSteps = ValidationResult +
  steps :: "ValidationStep list"

record PerPlotValidationResult = ValidationResultWithSteps +
  plotId :: jsvalue
  farmer :: jsvalue

text \<open>
  \<open>addError\<close> is written twice in the source (once per validator) with the same body; here
  it is one function over both result types.
\<close>

definition addError ::
    "'a ValidationResult_scheme \<Rightarrow> string \<Rightarrow> 'a ValidationResult_scheme" where
  "addError results msg = results\<lparr>isValid := False, errors := errors results @ [msg]\<rparr>"

definition addStep ::
    "ValidationResultWithSteps \<Rightarrow> string \<Rightarrow> bool \<Rightarrow> string \<Rightarrow> ValidationResultWithSteps" where
  "addStep results r p m =
     results\<lparr>steps := steps results @ [\<lparr>rule = r, passed = p, message = m\<rparr>]\<rparr>"

section \<open>Geometric helpers\<close>

text \<open>\<open>Math.round(val * 1e6) / 1e6\<close>; \<open>Math.round\<close> rounds a tie upwards.\<close>

definition round6 :: "rat \<Rightarrow> rat" where
  "round6 val = of_int \<lfloor>val * 1000000 + 1 / 2\<rfloor> / 1000000"

text \<open>\<open>coord.map(...)\<close>: only an array has a \<open>map\<close> method.\<close>

fun roundCoord :: "jsvalue \<Rightarrow> jsvalue list option" where
  "roundCoord (JArr xs) =
     Some (map (\<lambda>val. case val of JNum r \<Rightarrow> JNum (round6 r) | _ \<Rightarrow> val) xs)"
| "roundCoord _ = None"

text \<open>The validator with steps: equality of two positions after rounding.\<close>

definition pointsEqual :: "jsvalue \<Rightarrow> jsvalue \<Rightarrow> bool option" where
  "pointsEqual p1 p2 = do {
     r1 \<leftarrow> roundCoord p1;
     r2 \<leftarrow> roundCoord p2;
     Some (length r1 = length r2 \<and> list_all2 strictEquals r1 r2)
   }"

text \<open>
  The plain validator: \<open>p1.length === p2.length && p1.every((val, i) => val === p2[i])\<close>,
  with no rounding. \<open>same\<close> says that both arguments are one and the same object (the
  closure test of a ring of one position), where every \<open>===\<close> is true.
\<close>

definition pointsEqual_plain :: "bool \<Rightarrow> jsvalue \<Rightarrow> jsvalue \<Rightarrow> bool option" where
  "pointsEqual_plain same p1 p2 = do {
     l1 \<leftarrow> getProp p1 ''length'';
     l2 \<leftarrow> getProp p2 ''length'';
     if same \<or> strictEquals l1 l2 then
       (case p1 of
          JArr xs \<Rightarrow>
            map_option (list_all (\<lambda>b. b))
              (those (map (\<lambda>i. map_option (\<lambda>v. same \<or> strictEquals (xs ! i) v) (getIndex p2 i))
                 [0..<length xs]))
        | _ \<Rightarrow> None)
     else Some False
   }"

text \<open>\<open>p[i]\<close> as an operand of arithmetic.\<close>

definition coordinate :: "jsvalue \<Rightarrow> nat \<Rightarrow> rat number option" where
  "coordinate p i = do { v \<leftarrow> getIndex p i; toNumber v }"

fun nsqrt :: "rat number \<Rightarrow> real number" where
  "nsqrt (Fin q) = Fin (sqrt (of_rat q))"
| "nsqrt NaN = NaN"

text \<open>
  \<open>Math.acos(Math.max(-1, Math.min(1, dotProduct / (mag1 * mag2)))) * (180 / Math.PI)\<close>,
  for magnitudes that are not zero.
\<close>

fun acosDegrees :: "rat number \<Rightarrow> real number \<Rightarrow> real number \<Rightarrow> real number" where
  "acosDegrees (Fin d) (Fin m1) (Fin m2) =
     Fin (arccos (max (- 1) (min 1 (of_rat d / (m1 * m2)))) * (180 / pi))"
| "acosDegrees _ _ _ = NaN"

text \<open>\<open>calculateAngle\<close> and \<open>segmentsIntersect\<close> are the same in both validators.\<close>

definition calculateAngle :: "jsvalue \<Rightarrow> jsvalue \<Rightarrow> jsvalue \<Rightarrow> real number option" where
  "calculateAngle p1 p2 p3 = do {
     a0 \<leftarrow> coordinate p1 0;
     b0 \<leftarrow> coordinate p2 0;
     a1 \<leftarrow> coordinate p1 1;
     b1 \<leftarrow> coordinate p2 1;
     c0 \<leftarrow> coordinate p3 0;
     c1 \<leftarrow> coordinate p3 1;
     let v1 = (nsub a0 b0, nsub a1 b1);
         v2 = (nsub c0 b0, nsub c1 b1);
         dotProduct = nadd (nmul (fst v1) (fst v2)) (nmul (snd v1) (snd v2));
         mag1 = nsqrt (nadd (nmul (fst v1) (fst v1)) (nmul (snd v1) (snd v1)));
         mag2 = nsqrt (nadd (nmul (fst v2) (fst v2)) (nmul (snd v2) (snd v2)))
     in Some (if mag1 = Fin 0 \<or> mag2 = Fin 0 then Fin 180
              else acosDegrees dotProduct mag1 mag2)
   }"

text \<open>\<open>(c[1] - a[1]) * (b[0] - a[0]) > (b[1] - a[1]) * (c[0] - a[0])\<close>\<close>

definition ccw :: "jsvalue \<Rightarrow> jsvalue \<Rightarrow> jsvalue \<Rightarrow> bool option" where
  "ccw a b c = do {
     c1 \<leftarrow> coordinate c 1;
     a1 \<leftarrow> coordinate a 1;
     b0 \<leftarrow> coordinate b 0;
     a0 \<leftarrow> coordinate a 0;
     b1 \<leftarrow> coordinate b 1;
     c0 \<leftarrow> coordinate c 0;
     Some (ngt (nmul (nsub c1 a1) (nsub b0 a0)) (nmul (nsub b1 a1) (nsub c0 a0)))
   }"

definition segmentsIntersect ::
    "jsvalue \<Rightarrow> jsvalue \<Rightarrow> jsvalue \<Rightarrow> jsvalue \<Rightarrow> bool option" where
  "segmentsIntersect p1 p2 p3 p4 = do {
     x1 \<leftarrow> ccw p1 p3 p4;
     x2 \<leftarrow> ccw p2 p3 p4;
     if x1 \<noteq> x2 then do {
       y1 \<leftarrow> ccw p1 p2 p3;
       y2 \<leftarrow> ccw p1 p2 p4;
       Some (y1 \<noteq> y2)
     } else Some False
   }"

text \<open>
  The scan both validators run for self-intersections: for every \<open>i\<close> from 0 and every
  \<open>j\<close> from \<open>i + 2\<close>, both below \<open>ring.length - 1\<close>, skipping the pair of the first and the
  last segment; it stops at the first pair that intersects.
\<close>

definition scanSegments :: "jsvalue list \<Rightarrow> bool option" where
  "scanSegments ring =
     anyM (\<lambda>i.
       anyM (\<lambda>j.
         if i = 0 \<and> j + 2 = length ring then Some False
         else segmentsIntersect (ring ! i) (ring ! (i + 1)) (ring ! j) (ring ! (j + 1)))
       [i + 2..<length ring - 1])
     [0..<length ring - 1]"

section \<open>The validator with steps (\<open>geojsonValidatorWithSteps\<close>)\<close>

definition validateCoordinateWithSteps ::
    "jsvalue \<Rightarrow> nat \<Rightarrow> nat \<Rightarrow> nat \<Rightarrow> ValidationResultWithSteps
      \<Rightarrow> ValidationResultWithSteps option" where
  "validateCoordinateWithSteps coord featureIndex ringIndex pointIndex results =
     (let pt = ''Feature '' @ showNat featureIndex @ '' Point '' @ showNat pointIndex;
          invalid = addError
            (addStep results (pt @ '' format'') False (pt @ '': Invalid coordinate format''))
            (pt @ '': Invalid coordinate format'')
      in case coord of
           JArr cs \<Rightarrow>
             if length cs < 2 \<or> length cs > 3 then Some invalid
             else do {
               let results = addStep results (pt @ '' format'') True
                     (pt @ '': Coordinate format is valid'');
               let lon = cs ! 0;
               let lat = cs ! 1;
               results \<leftarrow>
                 (if (case lon of JNum r \<Rightarrow> r < - 180 \<or> 180 < r | _ \<Rightarrow> True) then do {
                    s \<leftarrow> toStr lon;
                    Some (addError
                      (addStep results (pt @ '' longitude'') False (pt @ '': Invalid longitude '' @ s))
                      (pt @ '': Invalid longitude '' @ s))
                  } else Some (addStep results (pt @ '' longitude'') True
                      (pt @ '': Longitude is valid'')));
               (if (case lat of JNum r \<Rightarrow> r < - 90 \<or> 90 < r | _ \<Rightarrow> True) then do {
                  s \<leftarrow> toStr lat;
                  Some (addError
                    (addStep results (pt @ '' latitude'') False (pt @ '': Invalid latitude '' @ s))
                    (pt @ '': Invalid latitude '' @ s))
                } else Some (addStep results (pt @ '' latitude'') True
                    (pt @ '': Latitude is valid'')))
             }
         | _ \<Rightarrow> Some invalid)"

text \<open>
  In the source the failing step is recorded inside the loops, right before the two
  \<open>break\<close>s; nothing else happens between the hit and the end of the scan.
\<close>

definition checkSelfIntersectionsWithSteps ::
    "jsvalue list \<Rightarrow> nat \<Rightarrow> ValidationResultWithSteps \<Rightarrow> ValidationResultWithSteps option" where
  "checkSelfIntersectionsWithSteps ring featureIndex results = do {
     found \<leftarrow> scanSegments ring;
     Some (if found then
             addError
               (addStep results (''Feature '' @ showNat featureIndex @ '' self-intersection'') False
                  (''Feature '' @ showNat featureIndex @ '': Self-intersection detected''))
               (''Feature '' @ showNat featureIndex @ '': Self-intersection detected'')
           else
             addStep results (''Feature '' @ showNat featureIndex @ '' self-intersection'') True
               (''Feature '' @ showNat featureIndex @ '': No self-intersections''))
   }"

text \<open>The text of a spike message; the angle is below 5 there, so it is a number.\<close>

definition spikeMessage :: "nat \<Rightarrow> real number \<Rightarrow> string" where
  "spikeMessage featureIndex angle =
     ''Feature '' @ showNat featureIndex @ '': Spike vertex detected (''
       @ (case angle of Fin a \<Rightarrow> toFixed1 a | NaN \<Rightarrow> ''NaN'') @ [CHR 0xB0] @ '')''"

definition checkForSpikesWithSteps ::
    "jsvalue list \<Rightarrow> nat \<Rightarrow> ValidationResultWithSteps \<Rightarrow> ValidationResultWithSteps option" where
  "checkForSpikesWithSteps ring featureIndex results = do {
     (results, found) \<leftarrow>
       forEachM (\<lambda>i (results, found). do {
           angle \<leftarrow> calculateAngle (ring ! (i - 1)) (ring ! i) (ring ! (i + 1));
           Some (if nlt angle (Fin 5) then
                   (addError
                      (addStep results (''Feature '' @ showNat featureIndex @ '' spike vertex'') False
                         (spikeMessage featureIndex angle))
                      (spikeMessage featureIndex angle),
                    True)
                 else (results, found))
         })
         [1..<length ring - 1] (results, False);
     Some (if \<not> found then
             addStep results (''Feature '' @ showNat featureIndex @ '' spike vertex'') True
               (''Feature '' @ showNat featureIndex @ '': No spike vertices'')
           else results)
   }"

definition checkExcessiveStraightLinesWithSteps ::
    "jsvalue list \<Rightarrow> nat \<Rightarrow> ValidationResultWithSteps \<Rightarrow> ValidationResultWithSteps option" where
  "checkExcessiveStraightLinesWithSteps ring featureIndex results = do {
     triangle \<leftarrow>
       (if length ring = 4 then pointsEqual (ring ! 0) (ring ! (length ring - 1))
        else Some False);
     Some (if triangle then
             addStep results (''Feature '' @ showNat featureIndex @ '' straight lines'') True
               (''Feature '' @ showNat featureIndex @ '': Polygon is a closed triangle (acceptable)'')
           else if length ring \<le> 4 then
             addError
               (addStep results (''Feature '' @ showNat featureIndex @ '' straight lines'') False
                  (''Feature '' @ showNat featureIndex
                     @ '': Polygon may have excessive straight lines (not enough points for curves)''))
               (''Feature '' @ showNat featureIndex
                  @ '': Polygon may have excessive straight lines (not enough points for curves)'')
           else
             addStep results (''Feature '' @ showNat featureIndex @ '' straight lines'') True
               (''Feature '' @ showNat featureIndex @ '': Polygon has enough points for curves''))
   }"

definition validateRingWithSteps ::
    "jsvalue \<Rightarrow> nat \<Rightarrow> nat \<Rightarrow> ValidationResultWithSteps \<Rightarrow> ValidationResultWithSteps option" where
  "validateRingWithSteps ring featureIndex ringIndex results =
     (let ft = ''Feature '' @ showNat featureIndex
      in case ring of
           JArr ps \<Rightarrow> do {
             let results = addStep results (ft @ '' ring array'') True
                   (ft @ '': Ring is an array of positions'');
             if length ps < 4 then
               Some (addError
                 (addStep results (ft @ '' ring points'') False
                    (ft @ '': Ring must have at least 4 points''))
                 (ft @ '': Ring must have at least 4 points''))
             else do {
               let results = addStep results (ft @ '' ring points'') True
                     (ft @ '': Ring has at least 4 points'');
               closed \<leftarrow> pointsEqual (ps ! 0) (ps ! (length ps - 1));
               let results =
                     (if \<not> closed then
                        addError
                          (addStep results (ft @ '' ring closure'') False
                             (ft @ '': Ring must be closed (first/last points identical)''))
                          (ft @ '': Ring must be closed (first/last points identical)'')
                      else addStep results (ft @ '' ring closure'') True (ft @ '': Ring is closed''));
               results \<leftarrow>
                 forEachM (\<lambda>i results. do {
                     eq \<leftarrow> pointsEqual (ps ! i) (ps ! (i - 1));
                     Some (if eq then
                             addError
                               (addStep results (ft @ '' duplicate points'') False
                                  (ft @ '': Duplicate consecutive points at '' @ showNat (i - 1)
                                     @ '' and '' @ showNat i))
                               (ft @ '': Duplicate consecutive points at '' @ showNat (i - 1)
                                  @ '' and '' @ showNat i)
                           else results)
                   })
                   [1..<length ps] results;
               results \<leftarrow>
                 forEachM (\<lambda>i results. do {
                     eq \<leftarrow> pointsEqual (ps ! i) (ps ! (i - 1));
                     Some (if eq then
                             addError
                               (addStep results (ft @ '' zero-length edge'') False
                                  (ft @ '': Zero-length edge at points '' @ showNat (i - 1)
                                     @ '' and '' @ showNat i))
                               (ft @ '': Zero-length edge at points '' @ showNat (i - 1)
                                  @ '' and '' @ showNat i)
                           else results)
                   })
                   [1..<length ps] results;
               results \<leftarrow>
                 forEachM (\<lambda>pointIndex.
                     validateCoordinateWithSteps (ps ! pointIndex) featureIndex ringIndex pointIndex)
                   [0..<length ps] results;
               results \<leftarrow> checkSelfIntersectionsWithSteps ps featureIndex results;
               results \<leftarrow> checkForSpikesWithSteps ps featureIndex results;
               checkExcessiveStraightLinesWithSteps ps featureIndex results
             }
           }
         | _ \<Rightarrow>
             Some (addError
               (addStep results (ft @ '' ring array'') False
                  (ft @ '': Ring must be an array of positions''))
               (ft @ '': Ring must be an array of positions'')))"

definition validatePolygonCoordinatesWithSteps ::
    "jsvalue list \<Rightarrow> nat \<Rightarrow> ValidationResultWithSteps \<Rightarrow> ValidationResultWithSteps option" where
  "validatePolygonCoordinatesWithSteps coordinates featureIndex results =
     (let ft = ''Feature '' @ showNat featureIndex
      in if length coordinates > 1 then
           Some (addError
             (addStep results (ft @ '' interior rings'') False
                (ft @ '': Interior rings (holes) are not allowed''))
             (ft @ '': Interior rings (holes) are not allowed''))
         else
           (let results = addStep results (ft @ '' interior rings'') True
                  (ft @ '': No interior rings'')
            in if length coordinates = 0 then
                 Some (addError
                   (addStep results (ft @ '' exterior ring'') False
                      (ft @ '': Polygon must have an exterior ring''))
                   (ft @ '': Polygon must have an exterior ring''))
               else
                 validateRingWithSteps (coordinates ! 0) featureIndex 0
                   (addStep results (ft @ '' exterior ring'') True
                      (ft @ '': Polygon has an exterior ring''))))"

definition validTypes :: "string list" where
  "validTypes =
     [''Point'', ''LineString'', ''Polygon'', ''MultiPoint'', ''MultiLineString'',
      ''MultiPolygon'', ''GeometryCollection'']"

definition validateGeometryWithSteps ::
    "jsvalue \<Rightarrow> nat \<Rightarrow> ValidationResultWithSteps \<Rightarrow> ValidationResultWithSteps option" where
  "validateGeometryWithSteps geometry featureIndex results =
     (let ft = ''Feature '' @ showNat featureIndex
      in do {
        ty \<leftarrow> getProp geometry ''type'';
        if falsy ty \<or> ty \<notin> set (map JStr validTypes) then
          Some (addError
            (addStep results (ft @ '' geometry type'') False (ft @ '': Invalid geometry type''))
            (ft @ '': Invalid geometry type''))
        else do {
          tyText \<leftarrow> toStr ty;
          let results = addStep results (ft @ '' geometry type'') True
                (ft @ '': Geometry type is '' @ [CHR 0x27] @ tyText @ [CHR 0x27]);
          if ty \<noteq> JStr ''Polygon'' then
            Some (addError
              (addStep results (ft @ '' geometry type'') False
                 (ft @ '': Only Polygon geometries are supported''))
              (ft @ '': Only Polygon geometries are supported''))
          else do {
            coordinates \<leftarrow> getProp geometry ''coordinates'';
            (case coordinates of
               JArr rings \<Rightarrow>
                 validatePolygonCoordinatesWithSteps rings featureIndex
                   (addStep results (ft @ '' coordinates'') True
                      (ft @ '': Coordinates are an array''))
             | _ \<Rightarrow>
                 Some (addError
                   (addStep results (ft @ '' coordinates'') False
                      (ft @ '': Coordinates must be an array''))
                   (ft @ '': Coordinates must be an array'')))
          }
        }
      })"

definition validateFeatureWithSteps ::
    "jsvalue \<Rightarrow> nat \<Rightarrow> ValidationResultWithSteps \<Rightarrow> ValidationResultWithSteps option" where
  "validateFeatureWithSteps feature index results =
     (let ft = ''Feature '' @ showNat index
      in do {
        ty \<leftarrow> getProp feature ''type'';
        if ty \<noteq> JStr ''Feature'' then
          Some (addError
            (addStep results (ft @ '' type'') False (ft @ '': Type must be 'Feature'' @ [CHR 0x27]))
            (ft @ '': Type must be 'Feature'' @ [CHR 0x27]))
        else do {
          let results = addStep results (ft @ '' type'') True (ft @ '' type is 'Feature'' @ [CHR 0x27]);
          noProperties \<leftarrow> map_option Not (hasProperty ''properties'' feature);
          properties \<leftarrow> getProp feature ''properties'';
          if noProperties \<or> (properties \<noteq> JNull \<and> typeof properties \<noteq> TyObject) then
            Some (addError
              (addStep results (ft @ '' properties'') False
                 (ft @ '': 'properties' must be an object or null''))
              (ft @ '': 'properties' must be an object or null''))
          else do {
            let results = addStep results (ft @ '' properties'') True
                  (ft @ '': 'properties' is valid'');
            results \<leftarrow>
              forEachM (\<lambda>prop results. do {
                  missing \<leftarrow>
                    (if falsy properties then Some True
                     else map_option Not (hasProperty prop properties));
                  Some (if missing then
                          addError
                            (addStep results (ft @ '' property '' @ prop) False
                               (ft @ '': Missing required property ''
                                  @ [CHR 0x27] @ prop @ [CHR 0x27]))
                            (ft @ '': Missing required property '' @ [CHR 0x27] @ prop @ [CHR 0x27])
                        else
                          addStep results (ft @ '' property '' @ prop) True
                            (ft @ '': Property '' @ [CHR 0x27] @ prop @ [CHR 0x27] @ '' is present''))
                })
                [''plot_ID'', ''farmer_name''] results;
            hasArea \<leftarrow> hasProperty ''area'' properties;
            results \<leftarrow>
              (if hasArea then do {
                 area \<leftarrow> getProp properties ''area'';
                 Some (if typeof area \<noteq> TyNumber then
                         addError
                           (addStep results (ft @ '' property area'') False
                              (ft @ '': 'area' property must be a number''))
                           (ft @ '': 'area' property must be a number'')
                       else
                         addStep results (ft @ '' property area'') True
                           (ft @ '': 'area' property is a number''))
               } else Some results);
            noGeometry \<leftarrow> map_option Not (hasProperty ''geometry'' feature);
            geometry \<leftarrow> getProp feature ''geometry'';
            if noGeometry \<and> geometry \<noteq> JNull then
              Some (addError
                (addStep results (ft @ '' geometry'') False
                   (ft @ '': Missing 'geometry' property''))
                (ft @ '': Missing 'geometry' property''))
            else if geometry = JNull then
              Some (addStep results (ft @ '' geometry'') True
                (ft @ '': geometry is null (allowed)''))
            else validateGeometryWithSteps geometry index results
          }
        }
      })"

definition validateGeoJSONWithSteps :: "jsvalue \<Rightarrow> ValidationResultWithSteps option" where
  "validateGeoJSONWithSteps geojson =
     (let results = \<lparr>isValid = True, errors = [], steps = []\<rparr>
      in if falsy geojson \<or> typeof geojson \<noteq> TyObject then
           Some (addError
             (addStep results ''Root type'' False ''GeoJSON must be a valid object'')
             ''GeoJSON must be a valid object'')
         else do {
           ty \<leftarrow> getProp geojson ''type'';
           if ty \<noteq> JStr ''FeatureCollection'' then
             Some (addError
               (addStep results ''Root type'' False
                  (''Root type must be 'FeatureCollection'' @ [CHR 0x27]))
               (''Root type must be 'FeatureCollection'' @ [CHR 0x27]))
           else do {
             let results = addStep results ''Root type'' True
                   (''Root type is 'FeatureCollection'' @ [CHR 0x27]);
             features \<leftarrow> getProp geojson ''features'';
             (case features of
                JArr fs \<Rightarrow>
                  if length fs = 0 then
                    Some (addError
                      (addStep results ''Features array'' False
                         ([CHR 0x27] @ ''features' must be a non-empty array''))
                      ([CHR 0x27] @ ''features' must be a non-empty array''))
                  else
                    forEachM (\<lambda>index. validateFeatureWithSteps (fs ! index) index)
                      [0..<length fs]
                      (addStep results ''Features array'' True
                         ([CHR 0x27] @ ''features' is a non-empty array''))
              | _ \<Rightarrow>
                  Some (addError
                    (addStep results ''Features array'' False
                       ([CHR 0x27] @ ''features' must be a non-empty array''))
                    ([CHR 0x27] @ ''features' must be a non-empty array'')))
           }
         })"

text \<open>\<open>v?.k\<close>: \<open>undefined\<close> when \<open>v\<close> is \<open>null\<close> or \<open>undefined\<close>.\<close>

definition optionalProp :: "jsvalue \<Rightarrow> string \<Rightarrow> jsvalue" where
  "optionalProp v k = (case getProp v k of None \<Rightarrow> JUndefined | Some x \<Rightarrow> x)"

text \<open>The callback \<open>validateAllPlotsWithSteps\<close> maps over the features.\<close>

definition plotResult :: "jsvalue \<Rightarrow> nat \<Rightarrow> PerPlotValidationResult option" where
  "plotResult feature index = do {
     stepsResult \<leftarrow>
       validateFeatureWithSteps feature index \<lparr>isValid = True, errors = [], steps = []\<rparr>;
     let plot = optionalProp (optionalProp feature ''properties'') ''plot_ID'';
     let name = optionalProp (optionalProp feature ''properties'') ''farmer_name'';
     Some \<lparr>isValid = isValid stepsResult,
           errors = errors stepsResult,
           steps = steps stepsResult,
           plotId = (if truthy plot then plot else JStr (''Feature '' @ showNat index)),
           farmer = (if truthy name then name else JStr [])\<rparr>
   }"

definition validateAllPlotsWithSteps :: "jsvalue \<Rightarrow> PerPlotValidationResult list option" where
  "validateAllPlotsWithSteps geojson =
     (if falsy geojson \<or> typeof geojson \<noteq> TyObject then Some []
      else do {
        ty \<leftarrow> getProp geojson ''type'';
        if ty \<noteq> JStr ''FeatureCollection'' then Some []
        else do {
          features \<leftarrow> getProp geojson ''features'';
          (case features of
             JArr fs \<Rightarrow> those (map (\<lambda>index. plotResult (fs ! index) index) [0..<length fs])
           | _ \<Rightarrow> Some [])
        }
      })"

section \<open>The plain validator (\<open>geojsonValidator\<close>)\<close>

text \<open>
  \<open>hasExcessivePrecision\<close>: the text after the first point of \<open>num.toString()\<close> (up to the
  next point, as \<open>split(".")[1]\<close> cuts it) has more than 6 characters.
\<close>

definition hasExcessivePrecision :: "jsvalue \<Rightarrow> bool option" where
  "hasExcessivePrecision num = do {
     str \<leftarrow> toStringMethod num;
     let decimalPart =
           (if CHR ''.'' \<in> set str
            then takeWhile (\<lambda>c. c \<noteq> CHR ''.'') (tl (dropWhile (\<lambda>c. c \<noteq> CHR ''.'') str))
            else []);
     Some (length decimalPart > 6)
   }"

definition validateCoordinate ::
    "jsvalue \<Rightarrow> nat \<Rightarrow> nat \<Rightarrow> nat \<Rightarrow> ValidationResult \<Rightarrow> ValidationResult option" where
  "validateCoordinate coord featureIndex ringIndex pointIndex results =
     (let pt = ''Feature '' @ showNat featureIndex @ '' Point '' @ showNat pointIndex
      in case coord of
           JArr cs \<Rightarrow>
             if length cs < 2 \<or> length cs > 3 then
               Some (addError results (pt @ '': Invalid coordinate format''))
             else do {
               let lon = cs ! 0;
               let lat = cs ! 1;
               results \<leftarrow>
                 (if (case lon of JNum r \<Rightarrow> r < - 180 \<or> 180 < r | _ \<Rightarrow> True) then do {
                    s \<leftarrow> toStr lon;
                    Some (addError results (pt @ '': Invalid longitude '' @ s))
                  } else Some results);
               results \<leftarrow>
                 (if (case lat of JNum r \<Rightarrow> r < - 90 \<or> 90 < r | _ \<Rightarrow> True) then do {
                    s \<leftarrow> toStr lat;
                    Some (addError results (pt @ '': Invalid latitude '' @ s))
                  } else Some results);
               lonExcess \<leftarrow> hasExcessivePrecision lon;
               excess \<leftarrow> (if lonExcess then Some True else hasExcessivePrecision lat);
               Some (if excess then addError results (pt @ '': Excessive coordinate precision'')
                     else results)
             }
         | _ \<Rightarrow> Some (addError results (pt @ '': Invalid coordinate format'')))"

definition checkSelfIntersections ::
    "jsvalue list \<Rightarrow> nat \<Rightarrow> ValidationResult \<Rightarrow> ValidationResult option" where
  "checkSelfIntersections ring featureIndex results = do {
     found \<leftarrow> scanSegments ring;
     Some (if found then
             addError results (''Feature '' @ showNat featureIndex @ '': Self-intersection detected'')
           else results)
   }"

definition checkForSpikes ::
    "jsvalue list \<Rightarrow> nat \<Rightarrow> ValidationResult \<Rightarrow> ValidationResult option" where
  "checkForSpikes ring featureIndex results =
     forEachM (\<lambda>i results. do {
         angle \<leftarrow> calculateAngle (ring ! (i - 1)) (ring ! i) (ring ! (i + 1));
         Some (if nlt angle (Fin 5) then addError results (spikeMessage featureIndex angle)
               else results)
       })
       [1..<length ring - 1] results"

definition checkExcessiveStraightLines ::
    "jsvalue list \<Rightarrow> nat \<Rightarrow> ValidationResult \<Rightarrow> ValidationResult" where
  "checkExcessiveStraightLines ring featureIndex results =
     (if length ring \<le> 4 then
        addError results
          (''Feature '' @ showNat featureIndex
             @ '': Polygon may have excessive straight lines (not enough points for curves)'')
      else results)"

text \<open>
  \<open>validateRing\<close> does not test that \<open>ring\<close> is an array. Its first two checks read
  \<open>ring[0]\<close>, \<open>ring.length\<close> and \<open>ring[ring.length - 1]\<close> of whatever it is given; past them,
  anything but an array ends in a throw (\<open>ring.forEach\<close> is not a function, if one of the
  loops before it has not thrown already).
\<close>

definition validateRing ::
    "jsvalue \<Rightarrow> nat \<Rightarrow> nat \<Rightarrow> ValidationResult \<Rightarrow> ValidationResult option" where
  "validateRing ring featureIndex ringIndex results =
     (let ft = ''Feature '' @ showNat featureIndex
      in do {
        first \<leftarrow> getIndex ring 0;
        len \<leftarrow> getProp ring ''length'';
        n \<leftarrow> toNumber len;
        final \<leftarrow> getComputed ring (nsub n (Fin 1));
        closed \<leftarrow> pointsEqual_plain (n = Fin 1) first final;
        let results =
              (if \<not> closed then
                 addError results (ft @ '': Ring must be closed (first/last points identical)'')
               else results);
        if nlt n (Fin 4) then
          Some (addError results (ft @ '': Ring must have at least 4 points''))
        else
          (case ring of
             JArr ps \<Rightarrow> do {
               results \<leftarrow>
                 forEachM (\<lambda>i results. do {
                     eq \<leftarrow> pointsEqual_plain False (ps ! i) (ps ! (i - 1));
                     Some (if eq then
                             addError results
                               (ft @ '': Duplicate consecutive points at '' @ showNat (i - 1)
                                  @ '' and '' @ showNat i)
                           else results)
                   })
                   [1..<length ps] results;
               results \<leftarrow>
                 forEachM (\<lambda>i results. do {
                     eq \<leftarrow> pointsEqual_plain False (ps ! i) (ps ! (i - 1));
                     Some (if eq then
                             addError results
                               (ft @ '': Zero-length edge at points '' @ showNat (i - 1)
                                  @ '' and '' @ showNat i)
                           else results)
                   })
                   [1..<length ps] results;
               results \<leftarrow>
                 forEachM (\<lambda>pointIndex.
                     validateCoordinate (ps ! pointIndex) featureIndex ringIndex pointIndex)
                   [0..<length ps] results;
               results \<leftarrow> checkSelfIntersections ps featureIndex results;
               results \<leftarrow> checkForSpikes ps featureIndex results;
               Some (checkExcessiveStraightLines ps featureIndex results)
             }
           | _ \<Rightarrow> None)
      })"

definition validatePolygonCoordinates ::
    "jsvalue list \<Rightarrow> nat \<Rightarrow> ValidationResult \<Rightarrow> ValidationResult option" where
  "validatePolygonCoordinates coordinates featureIndex results =
     (if length coordinates > 1 then
        Some (addError results
          (''Feature '' @ showNat featureIndex @ '': Interior rings (holes) are not allowed''))
      else if length coordinates = 0 then
        Some (addError results
          (''Feature '' @ showNat featureIndex @ '': Polygon must have an exterior ring''))
      else validateRing (coordinates ! 0) featureIndex 0 results)"

definition validateGeometry ::
    "jsvalue \<Rightarrow> nat \<Rightarrow> ValidationResult \<Rightarrow> ValidationResult option" where
  "validateGeometry geometry featureIndex results =
     (let ft = ''Feature '' @ showNat featureIndex
      in do {
        ty \<leftarrow> getProp geometry ''type'';
        if falsy ty \<or> ty \<notin> set (map JStr validTypes) then
          Some (addError results (ft @ '': Invalid geometry type''))
        else if ty \<noteq> JStr ''Polygon'' then
          Some (addError results (ft @ '': Only Polygon geometries are supported''))
        else do {
          coordinates \<leftarrow> getProp geometry ''coordinates'';
          (case coordinates of
             JArr rings \<Rightarrow> validatePolygonCoordinates rings featureIndex results
           | _ \<Rightarrow> Some (addError results (ft @ '': Coordinates must be an array'')))
        }
      })"

definition validateFeature ::
    "jsvalue \<Rightarrow> nat \<Rightarrow> ValidationResult \<Rightarrow> ValidationResult option" where
  "validateFeature feature index results =
     (let ft = ''Feature '' @ showNat index
      in do {
        ty \<leftarrow> getProp feature ''type'';
        if ty \<noteq> JStr ''Feature'' then
          Some (addError results (ft @ '': Type must be 'Feature'' @ [CHR 0x27]))
        else do {
          noProperties \<leftarrow> map_option Not (hasProperty ''properties'' feature);
          properties \<leftarrow> getProp feature ''properties'';
          if noProperties \<or> (properties \<noteq> JNull \<and> typeof properties \<noteq> TyObject) then
            Some (addError results (ft @ '': 'properties' must be an object or null''))
          else do {
            results \<leftarrow>
              forEachM (\<lambda>prop results. do {
                  missing \<leftarrow>
                    (if falsy properties then Some True
                     else map_option Not (hasProperty prop properties));
                  Some (if missing then
                          addError results
                            (ft @ '': Missing required property '' @ [CHR 0x27] @ prop @ [CHR 0x27])
                        else results)
                })
                [''plot_ID'', ''farmer_name''] results;
            hasArea \<leftarrow> hasProperty ''area'' properties;
            results \<leftarrow>
              (if hasArea then do {
                 area \<leftarrow> getProp properties ''area'';
                 Some (if typeof area \<noteq> TyNumber then
                         addError results (ft @ '': 'area' property must be a number'')
                       else results)
               } else Some results);
            geometry \<leftarrow> getProp feature ''geometry'';
            if falsy geometry \<and> geometry \<noteq> JNull then
              Some (addError results (ft @ '': Missing 'geometry' property''))
            else if geometry = JNull then Some results
            else validateGeometry geometry index results
          }
        }
      })"

definition validateGeoJSON :: "jsvalue \<Rightarrow> ValidationResult option" where
  "validateGeoJSON geojson =
     (let results = \<lparr>isValid = True, errors = []\<rparr>
      in if falsy geojson \<or> typeof geojson \<noteq> TyObject then
           Some (addError results ''GeoJSON must be a valid object'')
         else do {
           ty \<leftarrow> getProp geojson ''type'';
           if ty \<noteq> JStr ''FeatureCollection'' then
             Some (addError results (''Root type must be 'FeatureCollection'' @ [CHR 0x27]))
           else do {
             features \<leftarrow> getProp geojson ''features'';
             (case features of
                JArr fs \<Rightarrow>
                  if length fs = 0 then
                    Some (addError results ([CHR 0x27] @ ''features' must be a non-empty array''))
                  else
                    forEachM (\<lambda>index. validateFeature (fs ! index) index) [0..<length fs] results
              | _ \<Rightarrow> Some (addError results ([CHR 0x27] @ ''features' must be a non-empty array'')))
           }
         })"

section \<open>Documents used as concrete inputs\<close>

text \<open>\<open>{"type":"FeatureCollection","features":[]}\<close>\<close>

definition emptyFeaturesDocument :: jsvalue where
  "emptyFeaturesDocument =
     JObj [(''type'', JStr ''FeatureCollection''), (''features'', JArr [])]"

text \<open>
  \<open>{"type":"FeatureCollection","features":[{"type":"Feature","properties":null,"geometry":null}]}\<close>
\<close>

definition nullPropertiesDocument :: jsvalue where
  "nullPropertiesDocument =
     JObj [(''type'', JStr ''FeatureCollection''),
           (''features'', JArr
              [JObj [(''type'', JStr ''Feature''), (''properties'', JNull), (''geometry'', JNull)]])]"

text \<open>The position \<open>[x, y]\<close>.\<close>

definition position :: "rat \<Rightarrow> rat \<Rightarrow> jsvalue" where
  "position x y = JArr [JNum x, JNum y]"

text \<open>
  A collection of one feature with the properties \<open>plot_ID\<close>, \<open>farmer_name\<close> and \<open>area\<close>
  and a Polygon whose only ring is \<open>ring\<close>.
\<close>

definition polygonDocument :: "jsvalue list \<Rightarrow> jsvalue" where
  "polygonDocument ring =
     JObj [(''type'', JStr ''FeatureCollection''),
           (''features'', JArr
              [JObj [(''type'', JStr ''Feature''),
                     (''properties'', JObj [(''plot_ID'', JStr ''A1''),
                                           (''farmer_name'', JStr ''J. Doe''),
                                           (''area'', JNum (3 / 2))]),
                     (''geometry'', JObj [(''type'', JStr ''Polygon''),
                                         (''coordinates'', JArr [JArr ring])])]])]"

text \<open>The ring \<open>[[x,0],[x,1],[1,1],[1,0],[x,0]]\<close>: a rectangle when \<open>x < 1\<close>.\<close>

definition rectangle :: "rat \<Rightarrow> jsvalue list" where
  "rectangle x = [position x 0, position x 1, position 1 1, position 1 0, position x 0]"

text \<open>The document of the spec's concrete scenario, written out.\<close>

definition scenarioDocument :: jsvalue where
  "scenarioDocument =
     JObj [(''type'', JStr ''FeatureCollection''),
           (''features'', JArr
              [JObj [(''type'', JStr ''Feature''),
                     (''properties'', JObj [(''plot_ID'', JStr ''A1''),
                                           (''farmer_name'', JStr ''J. Doe''),
                                           (''area'', JNum (3 / 2))]),
                     (''geometry'', JObj [(''type'', JStr ''Polygon''),
                                         (''coordinates'', JArr [JArr
                                            [JArr [JNum 0, JNum 0], JArr [JNum 0, JNum 1],
                                             JArr [JNum 1, JNum 1], JArr [JNum 1, JNum 0],
                                             JArr [JNum 0, JNum 0]]])])]])]"

text \<open>The ring \<open>[[0,0],[0,1],[1,0],[0,0]]\<close>: a closed triangle.\<close>

definition triangle :: "jsvalue list" where
  "triangle = [position 0 0, position 0 1, position 1 0, position 0 0]"








section \<open>Notions used to state the claims\<close>


text \<open>
  Relations between two accumulators that recording a step keeps: a passing step on both
  sides, or a failing step with its error on both sides, whatever the texts. Every check of
  the validator with steps changes its accumulator by such steps only, so it keeps every
  such relation between two runs that differ in the indices used in messages.
\<close>

definition related ::
    "(ValidationResultWithSteps \<Rightarrow> ValidationResultWithSteps \<Rightarrow> bool)
      \<Rightarrow> ValidationResultWithSteps \<Rightarrow> ValidationResultWithSteps \<Rightarrow> bool" where
  "related R r r' = R r r'"

definition stepwise ::
    "(ValidationResultWithSteps \<Rightarrow> ValidationResultWithSteps \<Rightarrow> bool) \<Rightarrow> bool" where
  "stepwise R =
     (\<forall>r r' n n' m m' e e'. R r r' \<longrightarrow>
        R (addStep r n True m) (addStep r' n' True m')
        \<and> R (addError (addStep r n False m) e) (addError (addStep r' n' False m') e'))"

text \<open>An accumulator that already holds a failure.\<close>

definition failedResults :: ValidationResultWithSteps where
  "failedResults =
     \<lparr>isValid = False, errors = [''earlier error''],
      steps = [\<lparr>rule = ''earlier rule'', passed = False, message = ''earlier error''\<rparr>]\<rparr>"







section \<open>Evaluating the validators\<close>

lemma showNat_0 [simp]: "showNat 0 = ''0''"
  by (simp add: showNat.simps)

lemma showNat_digits [simp]:
  "showNat (Suc 0) = ''1''" "showNat 1 = ''1''" "showNat 2 = ''2''" "showNat 3 = ''3''"
  "showNat 4 = ''4''" "showNat (Suc (Suc 0)) = ''2''" "showNat (Suc (Suc (Suc 0))) = ''3''"
  "showNat (Suc (Suc (Suc (Suc 0)))) = ''4''"
  by (simp_all add: showNat.simps)

lemma coordinate_position [simp]:
  "coordinate (position x y) 0 = Some (Fin x)"
  "coordinate (position x y) (Suc 0) = Some (Fin y)"
  by (simp_all add: coordinate_def position_def)

lemma ccw_position [simp]:
  "ccw (position ax ay) (position bx by) (position cx cy)
     = Some ((by - ay) * (cx - ax) < (cy - ay) * (bx - ax))"
  by (simp add: ccw_def)

lemma segmentsIntersect_position:
  "segmentsIntersect (position ax ay) (position bx by) (position cx cy) (position dx dy) =
     Some (((cy - ay) * (dx - ax) < (dy - ay) * (cx - ax))
             \<noteq> ((cy - by) * (dx - bx) < (dy - by) * (cx - bx))
        \<and> ((by - ay) * (cx - ax) < (cy - ay) * (bx - ax))
             \<noteq> ((by - ay) * (dx - ax) < (dy - ay) * (bx - ax)))"
  by (simp add: segmentsIntersect_def)

lemma scan_rectangle: "x < 1 \<Longrightarrow> scanSegments (rectangle x) = Some False"
  by (simp add: scanSegments_def rectangle_def segmentsIntersect_position)

text \<open>A right angle: the dot product is zero and neither edge is degenerate.\<close>

lemma calculateAngle_right:
  assumes "(ax - bx) * (cx - bx) + (ay - by) * (cy - by) = 0"
    and "ax \<noteq> bx \<or> ay \<noteq> by" and "cx \<noteq> bx \<or> cy \<noteq> by"
  shows "calculateAngle (position ax ay) (position bx by) (position cx cy) = Some (Fin 90)"
proof -
  have m1: "(ax - bx) * (ax - bx) + (ay - by) * (ay - by) \<noteq> 0"
    using assms(2) by (simp add: sum_squares_eq_zero_iff)
  have m2: "(cx - bx) * (cx - bx) + (cy - by) * (cy - by) \<noteq> 0"
    using assms(3) by (simp add: sum_squares_eq_zero_iff)
  show ?thesis
    using assms(1) m1 m2 by (simp add: calculateAngle_def Let_def)
qed

lemma round6_values [simp]: "round6 0 = 0" "round6 1 = 1"
  by code_simp+

lemma round6_seven_digits: "round6 (1234567 / 10000000) \<noteq> 1"
  by code_simp

lemma pointsEqual_position [simp]:
  "pointsEqual (position a b) (position c d) = Some (round6 a = round6 c \<and> round6 b = round6 d)"
  by (simp add: pointsEqual_def position_def)

lemma pointsEqual_plain_position [simp]:
  "pointsEqual_plain same (position a b) (position c d) = Some (same \<or> a = c \<and> b = d)"
  by (cases same) (simp_all add: pointsEqual_plain_def position_def)

lemma fracDigits_values:
  "fracDigits 400 (1234567 / 10000000) = 7" "fracDigits 400 (1 / 10000000) = 7"
  "fracDigits 400 1 = 0"
  by code_simp+

lemma numberToString_values:
  "numberToString (1234567 / 10000000) = ''0.1234567''"
  "numberToString (1 / 10000000) = ''1e-7''"
  "numberToString 1 = ''1''"
  "numberToString 0 = ''0''"
  by (simp_all add: numberToString_def positiveToString_def Let_def showNat.simps
      fracDigits_values)

lemma precision_values [simp]:
  "hasExcessivePrecision (JNum 0) = Some False"
  "hasExcessivePrecision (JNum 1) = Some False"
  "hasExcessivePrecision (JNum (1 / 10000000)) = Some False"
  "hasExcessivePrecision (JNum (1234567 / 10000000)) = Some True"
  by (simp_all add: hasExcessivePrecision_def numberToString_values)

lemma validateCoordinate_position:
  assumes "- 180 \<le> x" "x \<le> 180" "- 90 \<le> y" "y \<le> 90"
    and "hasExcessivePrecision (JNum x) = Some ex" "hasExcessivePrecision (JNum y) = Some ey"
  shows "validateCoordinate (position x y) f r p res =
    Some (if ex \<or> ey then
            addError res (''Feature '' @ showNat f @ '' Point '' @ showNat p
              @ '': Excessive coordinate precision'')
          else res)"
  using assms by (simp add: validateCoordinate_def position_def not_less)

text \<open>The plain validator on a rectangle whose left edge is at \<open>x\<close>.\<close>

lemma validateRing_rectangle:
  assumes "- 180 \<le> x" "x < 1" "hasExcessivePrecision (JNum x) = Some e"
  shows "validateRing (JArr (rectangle x)) 0 0 res =
    Some (if e then
            addError (addError (addError res
              ''Feature 0 Point 0: Excessive coordinate precision'')
              ''Feature 0 Point 1: Excessive coordinate precision'')
              ''Feature 0 Point 4: Excessive coordinate precision''
          else res)"
proof -
  have vc: "validateCoordinate (position x y) 0 0 p r =
      Some (if e then
              addError r (''Feature 0 Point '' @ showNat p @ '': Excessive coordinate precision'')
            else r)"
    if "y = 0 \<or> y = 1" for y p r
    using that assms validateCoordinate_position[of x y e False 0 0 p r]
    by auto
  have vc1: "validateCoordinate (position 1 y) 0 0 p r = Some r"
    if "y = 0 \<or> y = 1" for y p r
    using that validateCoordinate_position[of 1 y False False 0 0 p r]
    by auto
  show ?thesis
    using assms(2)
    by (simp add: validateRing_def Let_def rectangle_def vc vc1 checkSelfIntersections_def
      scan_rectangle[unfolded rectangle_def]
      checkForSpikes_def calculateAngle_right checkExcessiveStraightLines_def)
qed

lemma validateGeoJSON_rectangle:
  assumes "- 180 \<le> x" "x < 1" "hasExcessivePrecision (JNum x) = Some e"
  shows "validateGeoJSON (polygonDocument (rectangle x)) =
    Some (if e then
            \<lparr>isValid = False,
             errors = [''Feature 0 Point 0: Excessive coordinate precision'',
                       ''Feature 0 Point 1: Excessive coordinate precision'',
                       ''Feature 0 Point 4: Excessive coordinate precision'']\<rparr>
          else \<lparr>isValid = True, errors = []\<rparr>)"
  by (simp add: validateGeoJSON_def polygonDocument_def falsy_def validateFeature_def
    validateGeometry_def validTypes_def validatePolygonCoordinates_def
    validateRing_rectangle[OF assms] addError_def)

text \<open>The validator with steps on the same rectangle.\<close>

lemma validateGeoJSONWithSteps_rectangle:
  assumes "- 180 \<le> x" "x < 1" "round6 x \<noteq> 1"
  shows "map_option (\<lambda>r. (isValid r, errors r))
           (validateGeoJSONWithSteps (polygonDocument (rectangle x))) = Some (True, [])"
proof -
  have vc: "validateCoordinateWithSteps (position a b) 0 0 p r =
      Some (addStep (addStep (addStep r (''Feature 0 Point '' @ showNat p @ '' format'') True
              (''Feature 0 Point '' @ showNat p @ '': Coordinate format is valid''))
             (''Feature 0 Point '' @ showNat p @ '' longitude'') True
              (''Feature 0 Point '' @ showNat p @ '': Longitude is valid''))
             (''Feature 0 Point '' @ showNat p @ '' latitude'') True
              (''Feature 0 Point '' @ showNat p @ '': Latitude is valid''))"
    if "a = x \<or> a = 1" "b = 0 \<or> b = 1" for a b p r
    using that assms
    by (auto simp add: validateCoordinateWithSteps_def position_def not_less Let_def)
  show ?thesis
    using assms
    by (simp add: validateGeoJSONWithSteps_def polygonDocument_def falsy_def
      validateFeatureWithSteps_def validateGeometryWithSteps_def validTypes_def
      validatePolygonCoordinatesWithSteps_def validateRingWithSteps_def Let_def rectangle_def vc
      checkSelfIntersectionsWithSteps_def scan_rectangle[unfolded rectangle_def]
      checkForSpikesWithSteps_def calculateAngle_right checkExcessiveStraightLinesWithSteps_def
      addStep_def addError_def)
qed

lemma scenarioDocument_rectangle: "scenarioDocument = polygonDocument (rectangle 0)"
  by (simp add: scenarioDocument_def polygonDocument_def rectangle_def position_def)

lemma emptyFeaturesDocument_result:
  "validateGeoJSONWithSteps emptyFeaturesDocument =
       Some \<lparr>isValid = False,
             errors = [[CHR 0x27] @ ''features' must be a non-empty array''],
             steps =
               [\<lparr>rule = ''Root type'', passed = True,
                  message = ''Root type is 'FeatureCollection'' @ [CHR 0x27]\<rparr>,
                \<lparr>rule = ''Features array'', passed = False,
                  message = [CHR 0x27] @ ''features' must be a non-empty array''\<rparr>]\<rparr>"
  by (simp add: validateGeoJSONWithSteps_def emptyFeaturesDocument_def falsy_def addStep_def
      addError_def)

section \<open>Every check keeps the relations that recording a step keeps\<close>

lemma stepwise_pass:
  "stepwise R \<Longrightarrow> related R r r' \<Longrightarrow> related R (addStep r n True m) (addStep r' n' True m')"
  by (simp add: stepwise_def related_def)

lemma stepwise_fail:
  "stepwise R \<Longrightarrow> related R r r' \<Longrightarrow>
     related R (addError (addStep r n False m) e) (addError (addStep r' n' False m') e')"
  by (simp add: stepwise_def related_def)

lemma rel_Some: "A x y \<Longrightarrow> rel_option A (Some x) (Some y)"
  by simp

lemma rel_bind:
  "rel_option A m m' \<Longrightarrow> (\<And>v v'. A v v' \<Longrightarrow> rel_option B (k v) (k' v'))
     \<Longrightarrow> rel_option B (m \<bind> k) (m' \<bind> k')"
  by (cases m; cases m'; simp)

lemma rel_bind_same:
  "(\<And>v. m = Some v \<Longrightarrow> rel_option B (k v) (k' v)) \<Longrightarrow> rel_option B (m \<bind> k) (m \<bind> k')"
  by (cases m; simp)

lemma rel_if:
  "(c \<Longrightarrow> rel_option B a a') \<Longrightarrow> (\<not> c \<Longrightarrow> rel_option B b b')
     \<Longrightarrow> rel_option B (if c then a else b) (if c then a' else b')"
  by simp

lemma rel_if_Some:
  "(c \<Longrightarrow> B a a') \<Longrightarrow> (\<not> c \<Longrightarrow> B b b')
     \<Longrightarrow> rel_option B (Some (if c then a else b)) (Some (if c then a' else b'))"
  by simp

lemma related_if:
  "(c \<Longrightarrow> related R a a') \<Longrightarrow> (\<not> c \<Longrightarrow> related R b b')
     \<Longrightarrow> related R (if c then a else b) (if c then a' else b')"
  by simp

lemma forEachM_rel:
  assumes "\<And>x s s'. A s s' \<Longrightarrow> rel_option A (f x s) (g x s')" and "A s s'"
  shows "rel_option A (forEachM f xs s) (forEachM g xs s')"
  using assms(2)
proof (induction xs arbitrary: s s')
  case Nil
  then show ?case by simp
next
  case (Cons x xs)
  show ?case
    using assms(1)[OF Cons.prems, of x] Cons.IH
    by (cases "f x s"; cases "g x s'"; simp)
qed

lemmas rel_intros = rel_bind_same rel_if rel_if_Some related_if rel_Some stepwise_pass stepwise_fail

lemma validateCoordinateWithSteps_rel:
  assumes "stepwise R" "related R res res'"
  shows "rel_option (related R) (validateCoordinateWithSteps coord i ri p res)
           (validateCoordinateWithSteps coord j rj q res')"
  unfolding validateCoordinateWithSteps_def Let_def
  by (cases coord; simp only: jsvalue.case)
     (intro rel_intros assms rel_bind[where A="related R"] | assumption)+


lemma checkSelfIntersectionsWithSteps_rel:
  assumes "stepwise R" "related R res res'"
  shows "rel_option (related R) (checkSelfIntersectionsWithSteps ring i res)
           (checkSelfIntersectionsWithSteps ring j res')"
  unfolding checkSelfIntersectionsWithSteps_def
  by (intro rel_intros assms | assumption)+

lemma checkExcessiveStraightLinesWithSteps_rel:
  assumes "stepwise R" "related R res res'"
  shows "rel_option (related R) (checkExcessiveStraightLinesWithSteps ring i res)
           (checkExcessiveStraightLinesWithSteps ring j res')"
  unfolding checkExcessiveStraightLinesWithSteps_def
  by (intro rel_intros assms | assumption)+

lemma checkForSpikesWithSteps_rel:
  assumes "stepwise R" "related R res res'"
  shows "rel_option (related R) (checkForSpikesWithSteps ring i res)
           (checkForSpikesWithSteps ring j res')"
proof -
  let ?A = "\<lambda>s s'. related R (fst s) (fst s') \<and> snd s = snd s'"
  have body: "rel_option ?A
      ((\<lambda>(results, found). do {
           angle \<leftarrow> calculateAngle (ring ! (k - 1)) (ring ! k) (ring ! (k + 1));
           Some (if nlt angle (Fin 5) then
                   (addError
                      (addStep results (''Feature '' @ showNat i @ '' spike vertex'') False
                         (spikeMessage i angle))
                      (spikeMessage i angle),
                    True)
                 else (results, found))
         }) s)
      ((\<lambda>(results, found). do {
           angle \<leftarrow> calculateAngle (ring ! (k - 1)) (ring ! k) (ring ! (k + 1));
           Some (if nlt angle (Fin 5) then
                   (addError
                      (addStep results (''Feature '' @ showNat j @ '' spike vertex'') False
                         (spikeMessage j angle))
                      (spikeMessage j angle),
                    True)
                 else (results, found))
         }) s')" if "?A s s'" for k s s'
    using that assms(1)
    by (cases s; cases s'; cases "calculateAngle (ring ! (k - 1)) (ring ! k) (ring ! (k + 1))")
       (auto intro: stepwise_fail)
  have loop: "rel_option ?A
      (forEachM (\<lambda>i' (results, found). do {
           angle \<leftarrow> calculateAngle (ring ! (i' - 1)) (ring ! i') (ring ! (i' + 1));
           Some (if nlt angle (Fin 5) then
                   (addError
                      (addStep results (''Feature '' @ showNat i @ '' spike vertex'') False
                         (spikeMessage i angle))
                      (spikeMessage i angle),
                    True)
                 else (results, found))
         }) [1..<length ring - 1] (res, False))
      (forEachM (\<lambda>i' (results, found). do {
           angle \<leftarrow> calculateAngle (ring ! (i' - 1)) (ring ! i') (ring ! (i' + 1));
           Some (if nlt angle (Fin 5) then
                   (addError
                      (addStep results (''Feature '' @ showNat j @ '' spike vertex'') False
                         (spikeMessage j angle))
                      (spikeMessage j angle),
                    True)
                 else (results, found))
         }) [1..<length ring - 1] (res', False))"
    by (rule forEachM_rel[where A = ?A]) (use body assms(2) in auto)
  show ?thesis
    unfolding checkForSpikesWithSteps_def
    by (rule rel_bind[OF loop]) (auto intro: stepwise_pass[OF assms(1)])
qed

lemma validateRingWithSteps_rel:
  assumes "stepwise R" "related R res res'"
  shows "rel_option (related R) (validateRingWithSteps ring i ri res)
           (validateRingWithSteps ring j rj res')"
  unfolding validateRingWithSteps_def Let_def
  by (cases ring; simp only: jsvalue.case)
     (intro rel_intros assms rel_bind[where A="related R"] forEachM_rel[where A="related R"]
        validateCoordinateWithSteps_rel checkSelfIntersectionsWithSteps_rel
        checkForSpikesWithSteps_rel checkExcessiveStraightLinesWithSteps_rel | assumption)+

lemma validatePolygonCoordinatesWithSteps_rel:
  assumes "stepwise R" "related R res res'"
  shows "rel_option (related R) (validatePolygonCoordinatesWithSteps cs i res)
           (validatePolygonCoordinatesWithSteps cs j res')"
  unfolding validatePolygonCoordinatesWithSteps_def Let_def
  by (intro rel_intros assms validateRingWithSteps_rel | assumption)+

lemma validateGeometryWithSteps_rel:
  assumes "stepwise R" "related R res res'"
  shows "rel_option (related R) (validateGeometryWithSteps g i res)
           (validateGeometryWithSteps g j res')"
proof -
  have coords: "rel_option (related R)
      (case c of JArr rings \<Rightarrow> validatePolygonCoordinatesWithSteps rings i (addStep r n True m)
         | _ \<Rightarrow> Some (addError (addStep r n2 False m2) e2))
      (case c of JArr rings \<Rightarrow> validatePolygonCoordinatesWithSteps rings j (addStep r' n' True m')
         | _ \<Rightarrow> Some (addError (addStep r' n2' False m2') e2'))"
    if "related R r r'" for c r r' n m n2 m2 e2 n' m' n2' m2' e2'
    by (cases c; simp only: jsvalue.case)
       (intro rel_intros assms that validatePolygonCoordinatesWithSteps_rel | assumption)+
  show ?thesis
    unfolding validateGeometryWithSteps_def Let_def
    by (intro rel_intros assms coords | assumption)+
qed


lemma validateFeatureWithSteps_rel:
  assumes "stepwise R" "related R res res'"
  shows "rel_option (related R) (validateFeatureWithSteps feature i res)
           (validateFeatureWithSteps feature j res')"
  unfolding validateFeatureWithSteps_def Let_def
  by (intro rel_intros assms rel_bind[where A="related R"] forEachM_rel[where A="related R"]
        validateGeometryWithSteps_rel | assumption)+

lemma forEachM_features_rel:
  assumes "stepwise R" "related R res res'"
  shows "rel_option (related R)
           (forEachM (\<lambda>index. validateFeatureWithSteps (fs ! index) index) ks res)
           (forEachM (\<lambda>index. validateFeatureWithSteps (fs ! index) index) ks res')"
  by (intro forEachM_rel[where A="related R"] validateFeatureWithSteps_rel assms)

lemma validateGeoJSONWithSteps_rel:
  assumes "stepwise R" "related R \<lparr>isValid = True, errors = [], steps = []\<rparr>
     \<lparr>isValid = True, errors = [], steps = []\<rparr>"
  shows "rel_option (related R) (validateGeoJSONWithSteps geojson) (validateGeoJSONWithSteps geojson)"
proof -
  have features: "rel_option (related R)
      (case fv of JArr fs \<Rightarrow>
          if length fs = 0 then Some (addError (addStep r n False m) e)
          else forEachM (\<lambda>index. validateFeatureWithSteps (fs ! index) index) [0..<length fs]
                 (addStep r n True m2)
        | _ \<Rightarrow> Some (addError (addStep r n False m) e))
      (case fv of JArr fs \<Rightarrow>
          if length fs = 0 then Some (addError (addStep r n False m) e)
          else forEachM (\<lambda>index. validateFeatureWithSteps (fs ! index) index) [0..<length fs]
                 (addStep r n True m2)
        | _ \<Rightarrow> Some (addError (addStep r n False m) e))"
    if "related R r r" for fv r n m e m2
    by (cases fv; simp only: jsvalue.case)
       (intro rel_intros assms that forEachM_features_rel | assumption)+
  show ?thesis
    unfolding validateGeoJSONWithSteps_def Let_def
    by (intro rel_intros assms features | assumption)+
qed

lemma stepwise_consistent:
  "stepwise (\<lambda>r r'. (isValid r = (\<forall>s\<in>set (steps r). passed s)) \<and> (isValid r = (errors r = [])))"
  by (auto simp add: stepwise_def addStep_def addError_def)

lemma stepwise_invalid: "stepwise (\<lambda>r r'. \<not> isValid r)"
  by (simp add: stepwise_def addStep_def addError_def)

lemma rel_option_same:
  "rel_option (related (\<lambda>r r'. P r)) m m \<Longrightarrow> m = Some r \<Longrightarrow> P r"
  by (simp add: related_def)

lemma returns_on_failedResults:
  "validateFeatureWithSteps (JArr []) 0 failedResults \<noteq> None"
  "validateGeometryWithSteps (JArr []) 0 failedResults \<noteq> None"
  "validatePolygonCoordinatesWithSteps [] 0 failedResults \<noteq> None"
  "validateRingWithSteps (JArr []) 0 0 failedResults \<noteq> None"
  "validateCoordinateWithSteps (JArr []) 0 0 0 failedResults \<noteq> None"
  "checkSelfIntersectionsWithSteps [] 0 failedResults \<noteq> None"
  "checkForSpikesWithSteps [] 0 failedResults \<noteq> None"
  "checkExcessiveStraightLinesWithSteps [] 0 failedResults \<noteq> None"
  by (simp_all add: validateFeatureWithSteps_def validateGeometryWithSteps_def falsy_def
      validatePolygonCoordinatesWithSteps_def validateRingWithSteps_def
      validateCoordinateWithSteps_def checkSelfIntersectionsWithSteps_def scanSegments_def
      checkForSpikesWithSteps_def checkExcessiveStraightLinesWithSteps_def Let_def)

section \<open>One result per feature\<close>












section \<open>The closure of a ring\<close>








lemma getComputed_last:
  "0 < length ps \<Longrightarrow>
     getComputed (JArr ps) (nsub (Fin (of_nat (length ps))) (Fin 1)) = Some (ps ! (length ps - 1))"
proof -
  assume a: "0 < length ps"
  then obtain p qs where ps: "ps = p # qs"
    by (cases ps) auto
  show ?thesis
    by (simp add: ps)
qed











section \<open>The scan for self-intersections on a reversed ring\<close>













section \<open>The claims\<close>

text \<open>
  C1 (the code does not keep this promise). The spec says that no input makes an entry
  point throw. The feature rule accepts \<open>"properties": null\<close> and guards the
  required-property test with \<open>!feature.properties\<close>, but then evaluates
  \<open>"area" in feature.properties\<close> unguarded: on a feature whose \<open>properties\<close> is \<open>null\<close>
  all three entry points throw a \<open>TypeError\<close> and return nothing.
\<close>

theorem null_properties_throws:
  "validateGeoJSON nullPropertiesDocument = None
   \<and> validateGeoJSONWithSteps nullPropertiesDocument = None
   \<and> validateAllPlotsWithSteps nullPropertiesDocument = None"
  by (simp add: validateGeoJSON_def validateGeoJSONWithSteps_def validateAllPlotsWithSteps_def
      nullPropertiesDocument_def falsy_def validateFeature_def validateFeatureWithSteps_def
      plotResult_def)

text \<open>
  C6 (the code does not keep this promise in the plain validator). A ring with fewer than 4
  positions must give an invalid result. The validator with steps tests the size of the
  ring before anything else and does so. The plain validator runs the closure test first:
  on the empty ring \<open>"coordinates": [[]]\<close> it reads \<open>ring[0].length\<close> of \<open>undefined\<close> and
  throws, so no result is returned at all.
\<close>

theorem empty_ring_plain_throws:
  "validateGeoJSON (polygonDocument []) = None
   \<and> map_option (\<lambda>r. (isValid r, errors r)) (validateGeoJSONWithSteps (polygonDocument []))
       = Some (False, [''Feature 0: Ring must have at least 4 points''])"
  by (simp add: validateGeoJSON_def validateGeoJSONWithSteps_def polygonDocument_def falsy_def
      validateFeature_def validateFeatureWithSteps_def validateGeometry_def
      validateGeometryWithSteps_def validTypes_def validatePolygonCoordinates_def
      validatePolygonCoordinatesWithSteps_def validateRing_def validateRingWithSteps_def Let_def
      pointsEqual_plain_def addStep_def addError_def)

text \<open>
  C7. The document of the spec's concrete scenario (one feature with \<open>plot_ID\<close>,
  \<open>farmer_name\<close> and a numeric \<open>area\<close>, whose Polygon is the ring
  \<open>[[0,0],[0,1],[1,1],[1,0],[0,0]]\<close>) is valid for both validators, with no error.
\<close>

theorem scenario_document_valid:
  "validateGeoJSON scenarioDocument = Some \<lparr>isValid = True, errors = []\<rparr>
   \<and> map_option (\<lambda>r. (isValid r, errors r)) (validateGeoJSONWithSteps scenarioDocument)
       = Some (True, [])"
  using validateGeoJSON_rectangle[of 0 False] validateGeoJSONWithSteps_rectangle[of 0]
  by (simp add: scenarioDocument_rectangle)

text \<open>
  C9 (the code does not keep the first part of this promise). The plain validator is meant
  to flag every longitude or latitude with more than 6 decimals. It counts the characters
  after the point of \<open>num.toString()\<close>, and a number below \<open>0.000001\<close> is rendered in
  exponent notation: the longitude \<open>0.0000001\<close> is the text \<open>1e-7\<close>, has no point, and
  is not flagged; the document is judged valid. The rest of the claim holds: with the
  longitude \<open>0.1234567\<close> the plain validator reports the precision of the three positions
  that carry it, and the validator with steps, which has no such check, judges the same
  document valid.
\<close>

theorem tiny_longitude_not_flagged:
  "numberToString (1 / 10000000) = ''1e-7''
   \<and> validateGeoJSON (polygonDocument (rectangle (1 / 10000000)))
       = Some \<lparr>isValid = True, errors = []\<rparr>
   \<and> validateGeoJSON (polygonDocument (rectangle (1234567 / 10000000)))
       = Some \<lparr>isValid = False,
               errors = [''Feature 0 Point 0: Excessive coordinate precision'',
                         ''Feature 0 Point 1: Excessive coordinate precision'',
                         ''Feature 0 Point 4: Excessive coordinate precision'']\<rparr>
   \<and> map_option (\<lambda>r. (isValid r, errors r))
         (validateGeoJSONWithSteps (polygonDocument (rectangle (1234567 / 10000000))))
       = Some (True, [])"
  using validateGeoJSON_rectangle[of "1 / 10000000" False]
    validateGeoJSON_rectangle[of "1234567 / 10000000" True]
    validateGeoJSONWithSteps_rectangle[of "1234567 / 10000000"] round6_seven_digits
  by (simp add: numberToString_values)

text \<open>
  C10. On \<open>{"type":"FeatureCollection","features":[]}\<close> the two entry points disagree:
  \<open>validateAllPlotsWithSteps\<close> returns the empty sequence, exactly as it does for a root
  that is not a FeatureCollection at all, while \<open>validateGeoJSONWithSteps\<close> returns an
  invalid result whose failing step is \<open>Features array\<close>.
\<close>

theorem empty_features_entry_points_disagree:
  "validateAllPlotsWithSteps emptyFeaturesDocument = Some []
   \<and> validateAllPlotsWithSteps JNull = Some []
   \<and> validateAllPlotsWithSteps (JObj [(''type'', JStr ''Feature'')]) = Some []
   \<and> validateGeoJSONWithSteps emptyFeaturesDocument =
       Some \<lparr>isValid = False,
             errors = [[CHR 0x27] @ ''features' must be a non-empty array''],
             steps =
               [\<lparr>rule = ''Root type'', passed = True,
                  message = ''Root type is 'FeatureCollection'' @ [CHR 0x27]\<rparr>,
                \<lparr>rule = ''Features array'', passed = False,
                  message = [CHR 0x27] @ ''features' must be a non-empty array''\<rparr>]\<rparr>"
  by (simp add: validateAllPlotsWithSteps_def validateGeoJSONWithSteps_def
      emptyFeaturesDocument_def falsy_def addStep_def addError_def)




text \<open>
  C4. For every result \<open>validateGeoJSONWithSteps\<close> returns, \<open>isValid\<close> is true exactly
  when no failing step was recorded, and exactly when the list of errors is empty. During
  accumulation \<open>isValid\<close> only falls: \<open>addError\<close> sets it false, \<open>addStep\<close> leaves it
  alone, and no check that starts from an invalid accumulator returns a valid one.
\<close>

theorem results_consistent:
  "(validateGeoJSONWithSteps geojson = Some r \<longrightarrow>
      (isValid r = (\<forall>s\<in>set (steps r). passed s)) \<and> (isValid r = (errors r = [])))
   \<and> \<not> isValid (addError results msg)
   \<and> isValid (addStep results n p m) = isValid results
   \<and> (\<not> isValid results \<longrightarrow>
        (validateFeatureWithSteps v i results = Some results' \<longrightarrow> \<not> isValid results')
      \<and> (validateGeometryWithSteps v i results = Some results' \<longrightarrow> \<not> isValid results')
      \<and> (validatePolygonCoordinatesWithSteps vs i results = Some results' \<longrightarrow> \<not> isValid results')
      \<and> (validateRingWithSteps v i ri results = Some results' \<longrightarrow> \<not> isValid results')
      \<and> (validateCoordinateWithSteps v i ri k results = Some results' \<longrightarrow> \<not> isValid results')
      \<and> (checkSelfIntersectionsWithSteps vs i results = Some results' \<longrightarrow> \<not> isValid results')
      \<and> (checkForSpikesWithSteps vs i results = Some results' \<longrightarrow> \<not> isValid results')
      \<and> (checkExcessiveStraightLinesWithSteps vs i results = Some results' \<longrightarrow> \<not> isValid results'))"
proof -
  have top: "(isValid r = (\<forall>s\<in>set (steps r). passed s)) \<and> (isValid r = (errors r = []))"
    if "validateGeoJSONWithSteps geojson = Some r"
    using validateGeoJSONWithSteps_rel[OF stepwise_consistent, of geojson] that
    by (auto simp add: related_def)
  have mono: "\<not> isValid results'"
    if "rel_option (related (\<lambda>r r'. \<not> isValid r)) c c" "c = Some results'" for c
    using that by (simp add: related_def)
  note inv = stepwise_invalid
  have later: "(validateFeatureWithSteps v i results = Some results' \<longrightarrow> \<not> isValid results')
      \<and> (validateGeometryWithSteps v i results = Some results' \<longrightarrow> \<not> isValid results')
      \<and> (validatePolygonCoordinatesWithSteps vs i results = Some results' \<longrightarrow> \<not> isValid results')
      \<and> (validateRingWithSteps v i ri results = Some results' \<longrightarrow> \<not> isValid results')
      \<and> (validateCoordinateWithSteps v i ri k results = Some results' \<longrightarrow> \<not> isValid results')
      \<and> (checkSelfIntersectionsWithSteps vs i results = Some results' \<longrightarrow> \<not> isValid results')
      \<and> (checkForSpikesWithSteps vs i results = Some results' \<longrightarrow> \<not> isValid results')
      \<and> (checkExcessiveStraightLinesWithSteps vs i results = Some results' \<longrightarrow> \<not> isValid results')"
    if "\<not> isValid results"
  proof -
    have start: "related (\<lambda>r r'. \<not> isValid r) results results"
      using that by (simp add: related_def)
    show ?thesis
      using mono[OF validateFeatureWithSteps_rel[OF inv start, of v i i]]
        mono[OF validateGeometryWithSteps_rel[OF inv start, of v i i]]
        mono[OF validatePolygonCoordinatesWithSteps_rel[OF inv start, of vs i i]]
        mono[OF validateRingWithSteps_rel[OF inv start, of v i ri i ri]]
        mono[OF validateCoordinateWithSteps_rel[OF inv start, of v i ri k i ri k]]
        mono[OF checkSelfIntersectionsWithSteps_rel[OF inv start, of vs i i]]
        mono[OF checkForSpikesWithSteps_rel[OF inv start, of vs i i]]
        mono[OF checkExcessiveStraightLinesWithSteps_rel[OF inv start, of vs i i]]
      by blast
  qed
  have recorder: "\<not> isValid (addError results msg)"
    "isValid (addStep results n p m) = isValid results"
    by (simp_all add: addError_def addStep_def)
  show ?thesis
    using top later recorder by blast
qed


theorem results_consistent_witness:
  "map_option (\<lambda>r. (isValid r, list_all passed (steps r), errors r = []))
       (validateGeoJSONWithSteps emptyFeaturesDocument) = Some (False, False, False)
   \<and> \<not> isValid (addError failedResults ''later error'')
   \<and> \<not> isValid (addStep failedResults ''later rule'' True ''fine'')
   \<and> map_option isValid (validateFeatureWithSteps (JArr []) 0 failedResults) = Some False
   \<and> map_option isValid (validateGeometryWithSteps (JArr []) 0 failedResults) = Some False
   \<and> map_option isValid (validatePolygonCoordinatesWithSteps [] 0 failedResults) = Some False
   \<and> map_option isValid (validateRingWithSteps (JArr []) 0 0 failedResults) = Some False
   \<and> map_option isValid (validateCoordinateWithSteps (JArr []) 0 0 0 failedResults) = Some False
   \<and> map_option isValid (checkSelfIntersectionsWithSteps [] 0 failedResults) = Some False
   \<and> map_option isValid (checkForSpikesWithSteps [] 0 failedResults) = Some False
   \<and> map_option isValid (checkExcessiveStraightLinesWithSteps [] 0 failedResults) = Some False"
proof -
  have f: "\<not> isValid failedResults"
    by (simp add: failedResults_def)
  have a: "\<not> isValid (addError failedResults ''later error'')"
    "\<not> isValid (addStep failedResults ''later rule'' True ''fine'')"
    using results_consistent[of emptyFeaturesDocument undefined failedResults "''later error''"
        "''later rule''" True "''fine''"] f
    by simp_all
  have top: "map_option (\<lambda>r. (isValid r, list_all passed (steps r), errors r = []))
       (validateGeoJSONWithSteps emptyFeaturesDocument) = Some (False, False, False)"
  proof -
    let ?y = "the (validateGeoJSONWithSteps emptyFeaturesDocument)"
    have y: "validateGeoJSONWithSteps emptyFeaturesDocument = Some ?y"
      by (simp add: emptyFeaturesDocument_result)
    have "isValid ?y = (\<forall>s\<in>set (steps ?y). passed s) \<and> isValid ?y = (errors ?y = [])"
      using results_consistent[of emptyFeaturesDocument ?y failedResults "[]" "[]" True "[]"
          "JArr []" 0 failedResults "[]" 0 0] y
      by blast
    then show ?thesis
      by (simp add: emptyFeaturesDocument_result)
  qed
  have c1: "map_option isValid (validateFeatureWithSteps (JArr []) 0 failedResults) = Some False"
  proof -
    obtain y where y: "validateFeatureWithSteps (JArr []) 0 failedResults = Some y"
      using returns_on_failedResults(1) by blast
    show ?thesis
      using results_consistent[of JNull undefined failedResults "[]" "[]" True "[]" "JArr []" 0 y
          "[]" 0 0] f y
      by simp
  qed
  have c2: "map_option isValid (validateGeometryWithSteps (JArr []) 0 failedResults) = Some False"
  proof -
    obtain y where y: "validateGeometryWithSteps (JArr []) 0 failedResults = Some y"
      using returns_on_failedResults(2) by blast
    show ?thesis
      using results_consistent[of JNull undefined failedResults "[]" "[]" True "[]" "JArr []" 0 y
          "[]" 0 0] f y
      by simp
  qed
  have c3: "map_option isValid (validatePolygonCoordinatesWithSteps [] 0 failedResults) = Some False"
  proof -
    obtain y where y: "validatePolygonCoordinatesWithSteps [] 0 failedResults = Some y"
      using returns_on_failedResults(3) by blast
    show ?thesis
      using results_consistent[of JNull undefined failedResults "[]" "[]" True "[]" "JArr []" 0 y
          "[]" 0 0] f y
      by simp
  qed
  have c4: "map_option isValid (validateRingWithSteps (JArr []) 0 0 failedResults) = Some False"
  proof -
    obtain y where y: "validateRingWithSteps (JArr []) 0 0 failedResults = Some y"
      using returns_on_failedResults(4) by blast
    show ?thesis
      using results_consistent[of JNull undefined failedResults "[]" "[]" True "[]" "JArr []" 0 y
          "[]" 0 0] f y
      by simp
  qed
  have c5: "map_option isValid (validateCoordinateWithSteps (JArr []) 0 0 0 failedResults) = Some False"
  proof -
    obtain y where y: "validateCoordinateWithSteps (JArr []) 0 0 0 failedResults = Some y"
      using returns_on_failedResults(5) by blast
    show ?thesis
      using results_consistent[of JNull undefined failedResults "[]" "[]" True "[]" "JArr []" 0 y
          "[]" 0 0] f y
      by simp
  qed
  have c6: "map_option isValid (checkSelfIntersectionsWithSteps [] 0 failedResults) = Some False"
  proof -
    obtain y where y: "checkSelfIntersectionsWithSteps [] 0 failedResults = Some y"
      using returns_on_failedResults(6) by blast
    show ?thesis
      using results_consistent[of JNull undefined failedResults "[]" "[]" True "[]" "JArr []" 0 y
          "[]" 0 0] f y
      by simp
  qed
  have c7: "map_option isValid (checkForSpikesWithSteps [] 0 failedResults) = Some False"
  proof -
    obtain y where y: "checkForSpikesWithSteps [] 0 failedResults = Some y"
      using returns_on_failedResults(7) by blast
    show ?thesis
      using results_consistent[of JNull undefined failedResults "[]" "[]" True "[]" "JArr []" 0 y
          "[]" 0 0] f y
      by simp
  qed
  have c8: "map_option isValid (checkExcessiveStraightLinesWithSteps [] 0 failedResults) = Some False"
  proof -
    obtain y where y: "checkExcessiveStraightLinesWithSteps [] 0 failedResults = Some y"
      using returns_on_failedResults(8) by blast
    show ?thesis
      using results_consistent[of JNull undefined failedResults "[]" "[]" True "[]" "JArr []" 0 y
          "[]" 0 0] f y
      by simp
  qed
  show ?thesis
    using top a c1 c2 c3 c4 c5 c6 c7 c8 by blast
qed










end
